theory Spec2Isabelle
  imports Main
begin

section \<open>The site generator (generator.py)\<close>

text \<open>
  The program is one Python module: a client for a remote text-generation service
  (\<open>call_ai\<close>), five prompt builders on top of it, the pure \<open>assemble_page\<close>, and
  the driver \<open>main\<close>. Everything outside the module is a parameter of the model: the
  credential, the prompt file, the remote service, the JSON decoder of the standard
  library, and the file system. The effects of a run are recorded in a \<open>world\<close>: the
  requests sent, in order, and the file writes, in order. The progress lines printed
  to the console are not modelled.
\<close>

subsection \<open>Python values and exceptions\<close>

text \<open>
  A decoded JSON document, as Python holds it: \<open>None\<close>, a bool, a number (kept as
  its literal: the program never computes with one), a str, a list, or a dict given
  by its items in insertion order (the keys of a dict are distinct).
\<close>

datatype json =
    JNull
  | JBool bool
  | JNum string
  | JStr string
  | JArr "json list"
  | JObj "(string \<times> json) list"

text \<open>
  The exceptions the module can end with. \<open>RuntimeError\<close> is raised by \<open>main\<close>
  itself; \<open>RequestException\<close> (no response: connection failure or the 120 second
  timeout), \<open>HTTPError\<close> and \<open>RequestsJSONDecodeError\<close> come from the HTTP
  library; \<open>JSONDecodeError\<close> from \<open>json.loads\<close>; \<open>KeyError\<close>,
  \<open>IndexError\<close> and \<open>TypeError\<close> from subscripting, iterating and path
  arithmetic on decoded values; \<open>OSError\<close> from reading or writing a file;
  \<open>NameError\<close> from reading a name that is bound nowhere.
\<close>

datatype py_error =
    RuntimeError
  | OSError
  | RequestException
  | HTTPError
  | RequestsJSONDecodeError
  | JSONDecodeError
  | KeyError
  | IndexError
  | TypeError
  | NameError

definition bind_err :: "py_error + 'a \<Rightarrow> ('a \<Rightarrow> py_error + 'b) \<Rightarrow> py_error + 'b" where
  "bind_err r f = (case r of Inl e \<Rightarrow> Inl e | Inr x \<Rightarrow> f x)"

text \<open>\<open>obj[key]\<close> for a str key.\<close>

fun py_getitem :: "json \<Rightarrow> string \<Rightarrow> py_error + json" where
  "py_getitem (JObj kvs) key = (case map_of kvs key of None \<Rightarrow> Inl KeyError | Some v \<Rightarrow> Inr v)"
| "py_getitem (JArr xs) key = Inl TypeError"
| "py_getitem (JStr s) key = Inl TypeError"
| "py_getitem (JNum n) key = Inl TypeError"
| "py_getitem (JBool b) key = Inl TypeError"
| "py_getitem JNull key = Inl TypeError"

text \<open>
  \<open>obj[0]\<close>. The keys of a decoded JSON object are strs, so \<open>0\<close> is never one of
  them; a str yields its first character.
\<close>

fun py_getitem0 :: "json \<Rightarrow> py_error + json" where
  "py_getitem0 (JArr []) = Inl IndexError"
| "py_getitem0 (JArr (x # xs)) = Inr x"
| "py_getitem0 (JObj kvs) = Inl KeyError"
| "py_getitem0 (JStr []) = Inl IndexError"
| "py_getitem0 (JStr (c # cs)) = Inr (JStr [c])"
| "py_getitem0 (JNum n) = Inl TypeError"
| "py_getitem0 (JBool b) = Inl TypeError"
| "py_getitem0 JNull = Inl TypeError"

text \<open>The items a \<open>for\<close> loop visits: a list's elements, a str's characters, a dict's keys.\<close>

fun py_iter :: "json \<Rightarrow> py_error + json list" where
  "py_iter (JArr xs) = Inr xs"
| "py_iter (JStr s) = Inr (map (\<lambda>c. JStr [c]) s)"
| "py_iter (JObj kvs) = Inr (map (\<lambda>kv. JStr (fst kv)) kvs)"
| "py_iter (JNum n) = Inl TypeError"
| "py_iter (JBool b) = Inl TypeError"
| "py_iter JNull = Inl TypeError"

text \<open>
  What an f-string puts in place of \<open>{v}\<close>: a str as it is, \<open>None\<close> and the bools
  by name, and any other value by its \<open>repr\<close>, which the model takes as a parameter.
\<close>

fun py_str :: "(json \<Rightarrow> string) \<Rightarrow> json \<Rightarrow> string" where
  "py_str repr (JStr s) = s"
| "py_str repr JNull = ''None''"
| "py_str repr (JBool b) = (if b then ''True'' else ''False'')"
| "py_str repr v = repr v"

subsection \<open>The world around the module\<close>

text \<open>
  One request to the chat-completion endpoint: the Authorization header, the model
  identifier and the contents of the system and the user message. The sampling
  temperature (0.3) and the timeout (120) are the same in every request.
\<close>

record request =
  authorization :: string
  model :: string
  system_content :: string
  user_content :: string

text \<open>
  What \<open>requests.post\<close> comes back with: no response at all (it raises), or a
  response with its status code and its body as \<open>response.json()\<close> decodes it
  (\<open>None\<close> when the body is not JSON).
\<close>

datatype http_outcome =
    NoResponse
  | Response int "json option"

text \<open>
  The environment of a run. \<open>remote\<close> answers the latest request of the log it is
  given (all requests so far, oldest first), so the same request may be answered
  differently at different times. \<open>writable name\<close> tells whether writing
  \<open>OUTPUT_DIR / name\<close> succeeds (it raises \<open>OSError\<close> otherwise), and
  \<open>file_of name\<close> is the file on disk that this path reaches: two names may reach
  the same file.
\<close>

record 'f env =
  api_key :: "string option"
  prompt_txt :: "string option"
  remote :: "request list \<Rightarrow> http_outcome"
  json_loads :: "string \<Rightarrow> json option"
  writable :: "string \<Rightarrow> bool"
  file_of :: "string \<Rightarrow> 'f"
  py_repr :: "json \<Rightarrow> string"

text \<open>
  What a run has done so far: the requests it has sent and the files it has written
  (the name under \<open>OUTPUT_DIR\<close> and the text), both oldest first.
\<close>

record world =
  requests :: "request list"
  writes :: "(string \<times> string) list"

definition empty_world :: world where
  "empty_world = \<lparr>requests = [], writes = []\<rparr>"

type_synonym 'a io = "world \<Rightarrow> (py_error + 'a) \<times> world"

definition returns :: "'a \<Rightarrow> 'a io" where
  "returns x w = (Inr x, w)"

definition raises :: "py_error \<Rightarrow> 'a io" where
  "raises e w = (Inl e, w)"

definition lift :: "py_error + 'a \<Rightarrow> 'a io" where
  "lift r w = (r, w)"

definition bind_io :: "'a io \<Rightarrow> ('a \<Rightarrow> 'b io) \<Rightarrow> 'b io" where
  "bind_io m f w = (case m w of (Inl e, w') \<Rightarrow> (Inl e, w') | (Inr x, w') \<Rightarrow> f x w')"

text \<open>The files on disk after a sequence of writes, carried out in order.\<close>

definition disk :: "'f env \<Rightarrow> (string \<times> string) list \<Rightarrow> 'f \<Rightarrow> string option" where
  "disk env ws = fold (\<lambda>nc d. d(file_of env (fst nc) \<mapsto> snd nc)) ws Map.empty"

subsection \<open>CONFIG\<close>

definition MODEL :: string where
  "MODEL = ''deepseek/deepseek-r1''"

subsection \<open>AI CALL\<close>

definition raise_for_status :: "int \<Rightarrow> py_error + unit" where
  "raise_for_status status = (if 400 \<le> status \<and> status < 600 then Inl HTTPError else Inr ())"

definition build_request :: "'f env \<Rightarrow> string \<Rightarrow> string \<Rightarrow> request" where
  "build_request env system_prompt user_prompt =
     \<lparr>authorization = ''Bearer '' @ (case api_key env of None \<Rightarrow> ''None'' | Some k \<Rightarrow> k),
      model = MODEL,
      system_content = system_prompt,
      user_content = user_prompt\<rparr>"

text \<open>The chain of subscripts of line 35: \<open>["choices"][0]["message"]["content"]\<close>.\<close>

definition subscripts :: "json \<Rightarrow> py_error + json" where
  "subscripts j =
     bind_err (py_getitem j ''choices'') (\<lambda>choices.
     bind_err (py_getitem0 choices) (\<lambda>choice.
     bind_err (py_getitem choice ''message'') (\<lambda>message.
     py_getitem message ''content'')))"

text \<open>Lines 34 and 35: what \<open>call_ai\<close> makes of the outcome of the POST.\<close>

definition read_response :: "http_outcome \<Rightarrow> py_error + json" where
  "read_response r =
     (case r of
        NoResponse \<Rightarrow> Inl RequestException
      | Response status body \<Rightarrow>
          bind_err (raise_for_status status) (\<lambda>_.
          bind_err (case body of None \<Rightarrow> Inl RequestsJSONDecodeError | Some j \<Rightarrow> Inr j)
            subscripts))"

definition call_ai :: "'f env \<Rightarrow> string \<Rightarrow> string \<Rightarrow> json io" where
  "call_ai env system_prompt user_prompt w =
     (let w' = w\<lparr>requests := requests w @ [build_request env system_prompt user_prompt]\<rparr>;
          response = remote env (requests w')
      in (read_response response, w'))"

subsection \<open>STEP 1: SITE STRUCTURE\<close>

definition structure_system :: string where
  "structure_system = ''You are a senior website architect.''"

definition structure_user :: "string \<Rightarrow> string" where
  "structure_user prompt =
     ''\<newline>Generate a JSON website structure.\<newline>\<newline>Rules:\<newline>- Header and footer must be global\<newline>- Pages must be independent\<newline>- Include pricing, login, signup, legal pages\<newline>\<newline>Return ONLY valid JSON.\<newline>\<newline>Prompt:\<newline>''
     @ prompt @ ''\<newline>''"

text \<open>\<open>json.loads\<close> accepts a str only; the decoder itself is the environment's.\<close>

definition loads :: "'f env \<Rightarrow> json \<Rightarrow> py_error + json" where
  "loads env result =
     (case result of
        JStr s \<Rightarrow> (case json_loads env s of None \<Rightarrow> Inl JSONDecodeError | Some j \<Rightarrow> Inr j)
      | _ \<Rightarrow> Inl TypeError)"

definition generate_structure :: "'f env \<Rightarrow> string \<Rightarrow> json io" where
  "generate_structure env prompt =
     bind_io (call_ai env structure_system (structure_user prompt))
       (\<lambda>result. lift (loads env result))"

subsection \<open>STEP 2: GLOBAL COMPONENTS\<close>

definition header_system :: string where
  "header_system = ''You create reusable website headers.''"

definition header_user :: "string \<Rightarrow> string" where
  "header_user prompt = ''Create a clean global HTML header for this site:\<newline>'' @ prompt"

definition generate_header :: "'f env \<Rightarrow> string \<Rightarrow> json io" where
  "generate_header env prompt =
     call_ai env header_system (header_user prompt)"

definition footer_system :: string where
  "footer_system = ''You create reusable website footers.''"

definition footer_user :: "string \<Rightarrow> string" where
  "footer_user prompt = ''Create a clean global HTML footer with disclaimer:\<newline>'' @ prompt"

definition generate_footer :: "'f env \<Rightarrow> string \<Rightarrow> json io" where
  "generate_footer env prompt =
     call_ai env footer_system (footer_user prompt)"

subsection \<open>STEP 3: PAGE GENERATOR\<close>

definition page_system :: string where
  "page_system = ''You generate complete HTML pages.''"

definition page_user :: "string \<Rightarrow> string \<Rightarrow> string" where
  "page_user page_name prompt =
     ''\<newline>Create a FULL HTML page for '' @ [CHR 0x27] @ page_name @ [CHR 0x27]
     @ ''.\<newline>\<newline>Rules:\<newline>- Do NOT include header or footer\<newline>- Content only inside <main>\<newline>- SEO friendly\<newline>- Professional UI\<newline>\<newline>Website prompt:\<newline>''
     @ prompt @ ''\<newline>''"

definition generate_page :: "'f env \<Rightarrow> json \<Rightarrow> string \<Rightarrow> json io" where
  "generate_page env page_name prompt =
     call_ai env page_system
       (page_user (py_str (py_repr env) page_name) prompt)"

subsection \<open>STEP 4: CSS\<close>

definition css_system :: string where
  "css_system = ''You generate production-ready CSS.''"

definition css_user :: "string \<Rightarrow> string" where
  "css_user prompt =
     ''\<newline>Create a modern fintech CSS stylesheet.\<newline>Dark & light friendly.\<newline>Mobile responsive.\<newline>\<newline>Website prompt:\<newline>''
     @ prompt @ ''\<newline>''"

definition generate_css :: "'f env \<Rightarrow> string \<Rightarrow> json io" where
  "generate_css env prompt =
     call_ai env css_system (css_user prompt)"

subsection \<open>ASSEMBLER\<close>

definition assemble_page :: "string \<Rightarrow> string \<Rightarrow> string \<Rightarrow> string" where
  \<open>assemble_page body header footer =
     ''<!DOCTYPE html>\<newline><html lang="en">\<newline><head>\<newline>  <meta charset="UTF-8" />\<newline>  <meta name="viewport" content="width=device-width, initial-scale=1.0"/>\<newline>  <link rel="stylesheet" href="main.css"/>\<newline></head>\<newline><body>\<newline>''
     @ header @ ''\<newline><main>\<newline>'' @ body @ ''\<newline></main>\<newline>'' @ footer
     @ ''\<newline></body>\<newline></html>\<newline>''\<close>

text \<open>
  The same function as Python runs it. The body of \<open>assemble_page\<close> is one
  \<open>return\<close> of an f-string: literal text and replacement fields, each field a name.
  A name is looked up among the locals of the call and then among the names of the
  module and the built-ins (\<open>NameError\<close> when it is bound nowhere), its value is
  formatted, and the pieces are joined from left to right. A call binds the three
  parameters and nothing else, and its result is handed back without any request or
  write in between.
\<close>

datatype part = Lit string | Field string

definition load_name :: "(string \<rightharpoonup> json) \<Rightarrow> (string \<rightharpoonup> json) \<Rightarrow> string \<Rightarrow> py_error + json" where
  "load_name locals globals name =
     (case locals name of
        Some v \<Rightarrow> Inr v
      | None \<Rightarrow> (case globals name of Some v \<Rightarrow> Inr v | None \<Rightarrow> Inl NameError))"

fun format_parts ::
  "(string \<rightharpoonup> json) \<Rightarrow> (string \<rightharpoonup> json) \<Rightarrow> (json \<Rightarrow> string) \<Rightarrow> part list \<Rightarrow> py_error + string" where
  "format_parts locals globals repr [] = Inr []"
| "format_parts locals globals repr (Lit s # ps) =
     bind_err (format_parts locals globals repr ps) (\<lambda>rest. Inr (s @ rest))"
| "format_parts locals globals repr (Field name # ps) =
     bind_err (load_name locals globals name) (\<lambda>v.
     bind_err (format_parts locals globals repr ps) (\<lambda>rest. Inr (py_str repr v @ rest)))"

definition page_template :: "part list" where
  \<open>page_template =
     [Lit ''<!DOCTYPE html>\<newline><html lang="en">\<newline><head>\<newline>  <meta charset="UTF-8" />\<newline>  <meta name="viewport" content="width=device-width, initial-scale=1.0"/>\<newline>  <link rel="stylesheet" href="main.css"/>\<newline></head>\<newline><body>\<newline>'',
      Field ''header'', Lit ''\<newline><main>\<newline>'', Field ''body'', Lit ''\<newline></main>\<newline>'',
      Field ''footer'', Lit ''\<newline></body>\<newline></html>\<newline>'']\<close>

definition assemble_page_call ::
  "'f env \<Rightarrow> (string \<rightharpoonup> json) \<Rightarrow> json \<Rightarrow> json \<Rightarrow> json \<Rightarrow> string io" where
  "assemble_page_call env globals body header footer =
     lift (format_parts [''body'' \<mapsto> body, ''header'' \<mapsto> header, ''footer'' \<mapsto> footer]
             globals (py_repr env) page_template)"

subsection \<open>MAIN\<close>

text \<open>\<open>not OPENROUTER_API_KEY\<close>: unset, or set to the empty string.\<close>

definition not_set :: "string option \<Rightarrow> bool" where
  "not_set key = (case key of None \<Rightarrow> True | Some k \<Rightarrow> k = [])"

definition read_text :: "'f env \<Rightarrow> string io" where
  "read_text env = (case prompt_txt env of None \<Rightarrow> raises OSError | Some s \<Rightarrow> returns s)"

text \<open>\<open>OUTPUT_DIR / page\<close>: a path can be joined with a str only.\<close>

definition path_join :: "json \<Rightarrow> py_error + string" where
  "path_join page = (case page of JStr name \<Rightarrow> Inr name | _ \<Rightarrow> Inl TypeError)"

text \<open>\<open>write_text\<close> checks that the data is a str before it opens the file.\<close>

definition write_text :: "'f env \<Rightarrow> string \<Rightarrow> json \<Rightarrow> unit io" where
  "write_text env name data w =
     (case data of
        JStr s \<Rightarrow>
          (if writable env name then (Inr (), w\<lparr>writes := writes w @ [(name, s)]\<rparr>)
           else (Inl OSError, w))
      | _ \<Rightarrow> (Inl TypeError, w))"

text \<open>Lines 154 to 158: the loop over the pages.\<close>

fun page_loop :: "'f env \<Rightarrow> string \<Rightarrow> json \<Rightarrow> json \<Rightarrow> json list \<Rightarrow> unit io" where
  "page_loop env prompt header footer [] w = (Inr (), w)"
| "page_loop env prompt header footer (page # rest) w =
     (case generate_page env page prompt w of
        (Inl e, w1) \<Rightarrow> (Inl e, w1)
      | (Inr body, w1) \<Rightarrow>
          (let full_html = assemble_page (py_str (py_repr env) body)
                 (py_str (py_repr env) header) (py_str (py_repr env) footer)
           in case path_join page of
                Inl e \<Rightarrow> (Inl e, w1)
              | Inr name \<Rightarrow>
                  (case write_text env name (JStr full_html) w1 of
                     (Inl e, w2) \<Rightarrow> (Inl e, w2)
                   | (Inr u, w2) \<Rightarrow> page_loop env prompt header footer rest w2)))"

definition main :: "'f env \<Rightarrow> unit io" where
  "main env =
     (if not_set (api_key env) then raises RuntimeError
      else
        bind_io (read_text env) (\<lambda>prompt.
        bind_io (generate_structure env prompt) (\<lambda>structure.
        bind_io (generate_header env prompt) (\<lambda>header.
        bind_io (generate_footer env prompt) (\<lambda>footer.
        bind_io (write_text env ''header.html'' header) (\<lambda>_.
        bind_io (write_text env ''footer.html'' footer) (\<lambda>_.
        bind_io (generate_css env prompt) (\<lambda>css.
        bind_io (write_text env ''main.css'' css) (\<lambda>_.
        bind_io (lift (py_getitem structure ''pages'')) (\<lambda>pages.
        bind_io (lift (py_iter pages)) (\<lambda>items.
        page_loop env prompt header footer items)))))))))))"

section \<open>Notions the properties are stated with\<close>

text \<open>\<open>in_order ps s\<close>: the strings \<open>ps\<close> occur in \<open>s\<close> one after the other, without overlap.\<close>

fun in_order :: "string list \<Rightarrow> string \<Rightarrow> bool" where
  "in_order [] s = True"
| "in_order (p # ps) s = (\<exists>pre post. s = pre @ p @ post \<and> in_order ps post)"

text \<open>The number of positions of \<open>s\<close> at which \<open>p\<close> occurs.\<close>

fun occurrences :: "string \<Rightarrow> string \<Rightarrow> nat" where
  "occurrences p [] = (if p = [] then 1 else 0)"
| "occurrences p (c # cs) = (if take (length p) (c # cs) = p then 1 else 0) + occurrences p cs"

text \<open>
  The content field of a response body, as the interface of the remote service
  describes it: the body is an object whose \<open>choices\<close> is a list, the first choice
  is an object whose \<open>message\<close> is an object, and the message has a \<open>content\<close>.
\<close>

fun content_field :: "json \<Rightarrow> json option" where
  "content_field (JObj kvs) =
     (case map_of kvs ''choices'' of
        Some (JArr (JObj choice # others)) \<Rightarrow>
          (case map_of choice ''message'' of
             Some (JObj message) \<Rightarrow> map_of message ''content''
           | _ \<Rightarrow> None)
      | _ \<Rightarrow> None)"
| "content_field _ = None"

text \<open>
  What \<open>call_ai\<close> returns or raises when the request log, its own request included,
  is \<open>log\<close>.
\<close>

definition answer :: "'f env \<Rightarrow> request list \<Rightarrow> py_error + json" where
  "answer env log = read_response (remote env log)"

text \<open>The page-generation calls among the requests of a world.\<close>

definition page_calls :: "world \<Rightarrow> request list" where
  "page_calls w = filter (\<lambda>r. system_content r = page_system) (requests w)"

text \<open>The four requests every run starts with, and the request for one page.\<close>

definition shared_requests :: "'f env \<Rightarrow> string \<Rightarrow> request list" where
  "shared_requests env prompt =
     [build_request env structure_system (structure_user prompt),
      build_request env header_system (header_user prompt),
      build_request env footer_system (footer_user prompt),
      build_request env css_system (css_user prompt)]"

definition page_request :: "'f env \<Rightarrow> string \<Rightarrow> string \<Rightarrow> request" where
  "page_request env prompt page = build_request env page_system (page_user page prompt)"

text \<open>
  A run gets through its shared phase: the credential is set, the prompt file is
  read, the structure call returns the text \<open>structure_text\<close>, which decodes to
  \<open>structure\<close>, the header, footer and stylesheet calls return the strs \<open>header\<close>,
  \<open>footer\<close> and \<open>css\<close>, and the three shared files can be written.
\<close>

definition shared_phase ::
  "'f env \<Rightarrow> string \<Rightarrow> string \<Rightarrow> json \<Rightarrow> string \<Rightarrow> string \<Rightarrow> string \<Rightarrow> bool" where
  "shared_phase env prompt structure_text structure header footer css =
     (\<not> not_set (api_key env) \<and> prompt_txt env = Some prompt \<and>
      answer env (take 1 (shared_requests env prompt)) = Inr (JStr structure_text) \<and>
      json_loads env structure_text = Some structure \<and>
      answer env (take 2 (shared_requests env prompt)) = Inr (JStr header) \<and>
      answer env (take 3 (shared_requests env prompt)) = Inr (JStr footer) \<and>
      answer env (shared_requests env prompt) = Inr (JStr css) \<and>
      writable env ''header.html'' \<and> writable env ''footer.html'' \<and> writable env ''main.css'')"

definition shared_world :: "'f env \<Rightarrow> string \<Rightarrow> string \<Rightarrow> string \<Rightarrow> string \<Rightarrow> world" where
  "shared_world env prompt header footer css =
     \<lparr>requests = shared_requests env prompt,
      writes = [(''header.html'', header), (''footer.html'', footer), (''main.css'', css)]\<rparr>"

subsection \<open>A stub environment\<close>

text \<open>
  A remote service that answers the n-th request of a run with the n-th text of a
  script, wrapped as a chat completion, and does not answer once the script is used
  up; a decoder that knows the structure documents used below; a file system in
  which every write succeeds and every name is a file of its own.
\<close>

definition completion :: "json \<Rightarrow> json" where
  "completion content =
     JObj [(''choices'', JArr [JObj [(''message'', JObj [(''content'', content)])]])]"

definition scripted :: "string list \<Rightarrow> request list \<Rightarrow> http_outcome" where
  "scripted script log =
     (if log = [] \<or> length script < length log then NoResponse
      else Response 200 (Some (completion (JStr (script ! (length log - 1))))))"

definition stub_loads :: "string \<Rightarrow> json option" where
  \<open>stub_loads =
     map_of
       [(''{}'', JObj []),
        (''{"pages": []}'', JObj [(''pages'', JArr [])]),
        (''{"pages": ["index.html", "index.html"]}'',
           JObj [(''pages'', JArr [JStr ''index.html'', JStr ''index.html''])])]\<close>

definition stub_env :: "string list \<Rightarrow> string env" where
  "stub_env script =
     \<lparr>api_key = Some ''sk-test'',
      prompt_txt = Some ''A fintech landing site'',
      remote = scripted script,
      json_loads = stub_loads,
      writable = (\<lambda>name. True),
      file_of = (\<lambda>name. ''output/'' @ name),
      py_repr = (\<lambda>v. [])\<rparr>"

text \<open>The same environment with a remote service that cannot be reached.\<close>

definition offline :: "string env" where
  "offline = stub_env [] \<lparr>remote := (\<lambda>log. NoResponse)\<rparr>"

text \<open>
  An environment in which a name may be spelt with a leading \<open>./\<close>: joined to
  \<open>OUTPUT_DIR\<close>, \<open>./index.html\<close> is the file of \<open>index.html\<close>. The structure
  names one page three times, the third time in the other spelling.
\<close>

definition alias_loads :: "string \<Rightarrow> json option" where
  \<open>alias_loads =
     map_of
       [(''{"pages": ["index.html", "index.html", "./index.html"]}'',
           JObj [(''pages'',
                  JArr [JStr ''index.html'', JStr ''index.html'', JStr ''./index.html''])])]\<close>

definition alias_env :: "string env" where
  \<open>alias_env =
     stub_env
       [''{"pages": ["index.html", "index.html", "./index.html"]}'', ''<h1>H</h1>'',
        ''<p>F</p>'', ''body {}'', ''<h1>One</h1>'', ''<h1>Two</h1>'', ''<h1>Three</h1>'']
     \<lparr>json_loads := alias_loads,
      file_of := (\<lambda>name. ''output/'' @ (if take 2 name = ''./'' then drop 2 name else name))\<rparr>\<close>

section \<open>The Assembler\<close>

lemma in_orderI: "in_order ps post \<Longrightarrow> in_order (p # ps) (pre @ p @ post)"
  by auto

text \<open>
  C1. For every body, header and footer, \<open>assemble_page\<close> returns one document that
  starts with the \<open><!DOCTYPE html>\<close> declaration and contains, in this order, the
  UTF-8 charset meta tag, the viewport meta tag, the stylesheet link to \<open>main.css\<close>,
  the opening of the body region, the header, the opening of \<open><main>\<close>, the body,
  the closing of \<open><main>\<close>, the footer and the closing of the body region.
\<close>

theorem assemble_page_document:
  \<open>take 15 (assemble_page body header footer) = ''<!DOCTYPE html>'' \<and>
   in_order
     [''<!DOCTYPE html>'', ''<meta charset="UTF-8" />'',
      ''<meta name="viewport" content="width=device-width, initial-scale=1.0"/>'',
      ''<link rel="stylesheet" href="main.css"/>'',
      ''<body>'', header, ''<main>'', body, ''</main>'', footer, ''</body>'']
     (assemble_page body header footer)\<close>
proof
  show \<open>take 15 (assemble_page body header footer) = ''<!DOCTYPE html>''\<close>
    by (simp add: assemble_page_def)
next
  have \<open>assemble_page body header footer =
      [] @ ''<!DOCTYPE html>'' @ ''\<newline><html lang="en">\<newline><head>\<newline>  '' @ ''<meta charset="UTF-8" />''
      @ ''\<newline>  '' @ ''<meta name="viewport" content="width=device-width, initial-scale=1.0"/>''
      @ ''\<newline>  '' @ ''<link rel="stylesheet" href="main.css"/>''
      @ ''\<newline></head>\<newline>'' @ ''<body>'' @ ''\<newline>'' @ header @ ''\<newline>'' @ ''<main>''
      @ ''\<newline>'' @ body @ ''\<newline>'' @ ''</main>'' @ ''\<newline>'' @ footer @ ''\<newline>'' @ ''</body>''
      @ ''\<newline></html>\<newline>''\<close>
    by (simp add: assemble_page_def)
  then show \<open>in_order
     [''<!DOCTYPE html>'', ''<meta charset="UTF-8" />'',
      ''<meta name="viewport" content="width=device-width, initial-scale=1.0"/>'',
      ''<link rel="stylesheet" href="main.css"/>'',
      ''<body>'', header, ''<main>'', body, ''</main>'', footer, ''</body>'']
     (assemble_page body header footer)\<close>
    apply (rule ssubst)
    apply (rule in_orderI)+
    apply simp
    done
qed

text \<open>
  C6, as amended. The document is a fixed template with three holes: there are four
  strings, the same for all inputs, such that the document is the first, the header,
  the second, the body, the third, the footer and the fourth, one after the other.
  So each blob is put in verbatim at one place, header before body before footer,
  and the document is 233 characters longer than the three blobs together: nothing
  is put in twice and nothing is cut.
\<close>

theorem assemble_page_template:
  "(\<exists>pre mid1 mid2 post. \<forall>body header footer.
      assemble_page body header footer = pre @ header @ mid1 @ body @ mid2 @ footer @ post) \<and>
   in_order [header, body, footer] (assemble_page body header footer) \<and>
   length (assemble_page body header footer) = 233 + length header + length body + length footer"
proof (intro conjI)
  show "\<exists>pre mid1 mid2 post. \<forall>body header footer.
      assemble_page body header footer = pre @ header @ mid1 @ body @ mid2 @ footer @ post"
    unfolding assemble_page_def by (intro exI allI) (rule refl)
next
  show "in_order [header, body, footer] (assemble_page body header footer)"
    unfolding assemble_page_def
    apply (rule in_orderI)+
    apply simp
    done
next
  show "length (assemble_page body header footer) = 233 + length header + length body + length footer"
    by (simp add: assemble_page_def)
qed

text \<open>
  C6, as stated, fails: the text of a blob can occur in the document more often than
  once. With the header \<open><hr/>\<close> and the body \<open><hr/>\<close> the document contains the
  header's text at two positions.
\<close>

theorem assemble_page_header_twice:
  "occurrences ''<hr/>'' (assemble_page ''<hr/>'' ''<hr/>'' ''<p>F</p>'') = 2"
  by (simp add: assemble_page_def)

text \<open>
  C7. For a fixed header and footer, two distinct bodies give two distinct documents.
\<close>

theorem assemble_page_inj_body:
  "B1 \<noteq> B2 \<Longrightarrow> assemble_page B1 H F \<noteq> assemble_page B2 H F"
  by (simp add: assemble_page_def)

theorem assemble_page_inj_body_witness:
  "assemble_page ''<h1>Index</h1>'' ''<h1>H</h1>'' ''<p>F</p>''
     \<noteq> assemble_page ''<h1>Pricing</h1>'' ''<h1>H</h1>'' ''<p>F</p>''"
  using assemble_page_inj_body
    [of "''<h1>Index</h1>''" "''<h1>Pricing</h1>''" "''<h1>H</h1>''" "''<p>F</p>''"]
  by simp

text \<open>A call of \<open>assemble_page\<close> on any three values, in any scope and any world.\<close>

lemma assemble_page_call_values:
  "assemble_page_call env globals body header footer w =
     (Inr (assemble_page (py_str (py_repr env) body) (py_str (py_repr env) header)
             (py_str (py_repr env) footer)), w)"
  by (simp add: assemble_page_call_def lift_def page_template_def load_name_def bind_err_def
      assemble_page_def)

text \<open>
  C8. A call of \<open>assemble_page\<close> on three strings, whatever the module's names are
  bound to and whatever the run has done so far, raises nothing (every name of the
  f-string is one of the three parameters), sends no request and writes no file (the
  world after the call is the world before it), and returns a document that depends
  on the three strings only: a second call with the same strings, in another scope
  and another world, returns the same document.
\<close>

theorem assemble_page_call_pure_total:
  "assemble_page_call env globals (JStr body) (JStr header) (JStr footer) w =
     (Inr (assemble_page body header footer), w) \<and>
   fst (assemble_page_call env' globals' (JStr body) (JStr header) (JStr footer) w') =
     fst (assemble_page_call env globals (JStr body) (JStr header) (JStr footer) w)"
  by (simp add: assemble_page_call_values)

theorem assemble_page_call_pure_total_witness:
  \<open>assemble_page_call (stub_env []) [''header'' \<mapsto> JNull, ''MODEL'' \<mapsto> JStr MODEL]
       (JStr ''<h1>Index</h1>'') (JStr ''<h1>H</h1>'') (JStr ''<p>F</p>'') empty_world =
     (Inr ''<!DOCTYPE html>\<newline><html lang="en">\<newline><head>\<newline>  <meta charset="UTF-8" />\<newline>  <meta name="viewport" content="width=device-width, initial-scale=1.0"/>\<newline>  <link rel="stylesheet" href="main.css"/>\<newline></head>\<newline><body>\<newline><h1>H</h1>\<newline><main>\<newline><h1>Index</h1>\<newline></main>\<newline><p>F</p>\<newline></body>\<newline></html>\<newline>'',
      empty_world) \<and>
   fst (assemble_page_call offline Map.empty
          (JStr ''<h1>Index</h1>'') (JStr ''<h1>H</h1>'') (JStr ''<p>F</p>'')
          \<lparr>requests = [], writes = [(''header.html'', ''<h1>H</h1>'')]\<rparr>) =
   fst (assemble_page_call (stub_env []) [''header'' \<mapsto> JNull, ''MODEL'' \<mapsto> JStr MODEL]
          (JStr ''<h1>Index</h1>'') (JStr ''<h1>H</h1>'') (JStr ''<p>F</p>'') empty_world)\<close>
  using assemble_page_call_pure_total
    [of "stub_env []" "[''header'' \<mapsto> JNull, ''MODEL'' \<mapsto> JStr MODEL]"
       "''<h1>Index</h1>''" "''<h1>H</h1>''" "''<p>F</p>''" empty_world
       offline Map.empty "\<lparr>requests = [], writes = [(''header.html'', ''<h1>H</h1>'')]\<rparr>"]
  by (simp add: assemble_page_def)

section \<open>The Generation Client\<close>

lemma call_ai_answer:
  "call_ai env s u w =
     (answer env (requests w @ [build_request env s u]),
      w\<lparr>requests := requests w @ [build_request env s u]\<rparr>)"
  by (simp add: call_ai_def answer_def Let_def)

lemma py_getitem_cases:
  "py_getitem j k = Inr v \<longleftrightarrow> (\<exists>kvs. j = JObj kvs \<and> map_of kvs k = Some v)"
  by (cases j) (auto split: option.splits)

lemma py_getitem_errors: "py_getitem j k = Inl e \<Longrightarrow> e = KeyError \<or> e = TypeError"
  by (cases j) (auto split: option.splits)

lemma py_getitem0_cases:
  "py_getitem0 j = Inr v \<longleftrightarrow>
     (\<exists>xs. j = JArr (v # xs)) \<or> (\<exists>c cs. j = JStr (c # cs) \<and> v = JStr [c])"
  by (cases j rule: py_getitem0.cases) auto

lemma py_getitem0_errors:
  "py_getitem0 j = Inl e \<Longrightarrow> e = KeyError \<or> e = TypeError \<or> e = IndexError"
  by (cases j rule: py_getitem0.cases) auto

lemma subscripts_Inl:
  "subscripts j = Inl e \<Longrightarrow> e = KeyError \<or> e = IndexError \<or> e = TypeError"
  unfolding subscripts_def bind_err_def
  by (auto split: sum.splits dest: py_getitem_errors py_getitem0_errors)

lemma subscripts_Inr: "subscripts j = Inr v \<Longrightarrow> content_field j = Some v"
  unfolding subscripts_def bind_err_def
  by (auto split: sum.splits simp: py_getitem_cases py_getitem0_cases)

lemma content_field_Some:
  "content_field j = Some v \<Longrightarrow>
     \<exists>kvs choice others message.
       j = JObj kvs \<and> map_of kvs ''choices'' = Some (JArr (JObj choice # others)) \<and>
       map_of choice ''message'' = Some (JObj message) \<and> map_of message ''content'' = Some v"
  by (cases j) (auto split: option.splits json.splits list.splits)

lemma subscripts_Some: "content_field j = Some v \<Longrightarrow> subscripts j = Inr v"
  by (drule content_field_Some) (auto simp: subscripts_def bind_err_def)

lemma subscripts_None:
  "content_field j = None \<Longrightarrow>
     subscripts j = Inl KeyError \<or> subscripts j = Inl IndexError \<or> subscripts j = Inl TypeError"
proof (cases "subscripts j")
  case (Inl e)
  with subscripts_Inl [OF Inl] show ?thesis by auto
next
  case (Inr v)
  assume "content_field j = None"
  with subscripts_Inr [OF Inr] show ?thesis by simp
qed

lemma read_response_Response:
  "read_response (Response status body) =
     (if 400 \<le> status \<and> status < 600 then Inl HTTPError
      else case body of None \<Rightarrow> Inl RequestsJSONDecodeError | Some j \<Rightarrow> subscripts j)"
  by (simp add: read_response_def raise_for_status_def bind_err_def split: option.splits)

text \<open>
  C5, as amended. \<open>call_ai\<close> sends one request and then
  \<^item> fails with a transport error when no response arrives (\<open>RequestException\<close>:
    the connection fails or the timeout passes) or when the status is one that
    \<open>raise_for_status\<close> rejects, 400 to 599 (\<open>HTTPError\<close>);
  \<^item> fails with a protocol error when the body is not JSON
    (\<open>RequestsJSONDecodeError\<close>) or has no content field at
    \<open>choices[0].message.content\<close> (\<open>KeyError\<close>, \<open>IndexError\<close> or \<open>TypeError\<close>);
  \<^item> returns the value of the content field in every other case.
\<close>

theorem call_ai_outcomes:
  assumes "r = remote env (requests w @ [build_request env system_prompt user_prompt])"
  shows
   "snd (call_ai env system_prompt user_prompt w) =
      w\<lparr>requests := requests w @ [build_request env system_prompt user_prompt]\<rparr> \<and>
    (case r of
       NoResponse \<Rightarrow> fst (call_ai env system_prompt user_prompt w) = Inl RequestException
     | Response status body \<Rightarrow>
         if 400 \<le> status \<and> status < 600
         then fst (call_ai env system_prompt user_prompt w) = Inl HTTPError
         else (case body of
                 None \<Rightarrow> fst (call_ai env system_prompt user_prompt w) = Inl RequestsJSONDecodeError
               | Some j \<Rightarrow>
                   (case content_field j of
                      None \<Rightarrow> fst (call_ai env system_prompt user_prompt w)
                                \<in> {Inl KeyError, Inl IndexError, Inl TypeError}
                    | Some content \<Rightarrow> fst (call_ai env system_prompt user_prompt w) = Inr content)))"
proof (cases r)
  case NoResponse
  with assms show ?thesis
    by (simp add: call_ai_def Let_def read_response_def)
next
  case (Response status body)
  with assms have res:
    "fst (call_ai env system_prompt user_prompt w) = read_response (Response status body)"
    by (simp add: call_ai_def Let_def)
  have w: "snd (call_ai env system_prompt user_prompt w) =
      w\<lparr>requests := requests w @ [build_request env system_prompt user_prompt]\<rparr>"
    by (simp add: call_ai_def Let_def)
  show ?thesis
    using subscripts_None subscripts_Some
    by (auto simp: Response res w read_response_Response split: option.splits)
qed

theorem call_ai_outcomes_witness:
  "fst (call_ai (stub_env [''<h1>H</h1>'']) ''s'' ''u'' empty_world) = Inr (JStr ''<h1>H</h1>'') \<and>
   fst (call_ai (stub_env []) ''s'' ''u'' empty_world) = Inl RequestException \<and>
   fst (call_ai (stub_env [] \<lparr>remote := (\<lambda>log. Response 503 None)\<rparr>) ''s'' ''u'' empty_world)
     = Inl HTTPError \<and>
   fst (call_ai
          (stub_env [] \<lparr>remote := (\<lambda>log. Response 200 (Some (JObj [(''choices'', JArr [])])))\<rparr>)
          ''s'' ''u'' empty_world)
     \<in> {Inl KeyError, Inl IndexError, Inl TypeError}"
  using
    call_ai_outcomes [where env = "stub_env [''<h1>H</h1>'']" and w = empty_world
      and system_prompt = "''s''" and user_prompt = "''u''", OF refl]
    call_ai_outcomes [where env = "stub_env []" and w = empty_world
      and system_prompt = "''s''" and user_prompt = "''u''", OF refl]
    call_ai_outcomes [where env = "stub_env [] \<lparr>remote := (\<lambda>log. Response 503 None)\<rparr>"
      and w = empty_world and system_prompt = "''s''" and user_prompt = "''u''", OF refl]
    call_ai_outcomes [where env = "stub_env [] \<lparr>remote := (\<lambda>log. Response 200 (Some (JObj [(''choices'', JArr [])])))\<rparr>"
      and w = empty_world and system_prompt = "''s''" and user_prompt = "''u''", OF refl]
  by (simp add: stub_env_def scripted_def completion_def empty_world_def)

text \<open>
  C5, as stated, fails: there is a case in which the remote service returns no
  status at all and no body, and \<open>call_ai\<close> still does not return the text of a
  content field. When the service cannot be reached, the call raises.
\<close>

theorem call_ai_no_response:
  "remote offline (requests empty_world @ [build_request offline ''s'' ''u'']) = NoResponse \<and>
   fst (call_ai offline ''s'' ''u'' empty_world) = Inl RequestException"
  by (simp add: offline_def stub_env_def call_ai_def Let_def read_response_def)

section \<open>The Pipeline Driver\<close>

text \<open>
  C4. When the credential is not set, \<open>main\<close> raises its \<open>RuntimeError\<close> (the
  configuration error of the run) and leaves the world as it found it: no request
  has been sent and no file written.
\<close>

theorem main_without_credential:
  "not_set (api_key env) \<Longrightarrow> main env w = (Inl RuntimeError, w)"
  by (simp add: main_def raises_def)

theorem main_without_credential_witness:
  "not_set (api_key (stub_env [] \<lparr>api_key := None\<rparr>)) \<and>
   not_set (api_key (stub_env [] \<lparr>api_key := Some []\<rparr>)) \<and>
   main (stub_env [] \<lparr>api_key := None\<rparr>) empty_world = (Inl RuntimeError, empty_world) \<and>
   requests (snd (main (stub_env [] \<lparr>api_key := Some []\<rparr>) empty_world)) = []"
  using main_without_credential [of "stub_env [] \<lparr>api_key := None\<rparr>" empty_world]
    main_without_credential [of "stub_env [] \<lparr>api_key := Some []\<rparr>" empty_world]
  by (simp add: not_set_def stub_env_def empty_world_def)

lemma write_text_ok:
  "writable env name \<Longrightarrow>
   write_text env name (JStr s) w = (Inr (), w\<lparr>writes := writes w @ [(name, s)]\<rparr>)"
  by (simp add: write_text_def)

text \<open>
  C2. When the credential is set, the prompt file is read and the structure call
  returns a text that \<open>json.loads\<close> cannot decode, \<open>main\<close> ends with the
  \<open>JSONDecodeError\<close> of \<open>json.loads\<close> (the structure parse error of the run). By
  then it has sent the structure request and nothing else: no page-generation call
  has been made, and no file has been written.
\<close>

theorem main_unparseable_structure:
  assumes "\<not> not_set (api_key env)" and "prompt_txt env = Some prompt"
    and "answer env (requests w @ [build_request env structure_system (structure_user prompt)])
           = Inr (JStr structure_text)"
    and "json_loads env structure_text = None"
  shows "main env w =
           (Inl JSONDecodeError,
            w\<lparr>requests :=
                requests w @ [build_request env structure_system (structure_user prompt)]\<rparr>) \<and>
         page_calls (snd (main env w)) = page_calls w"
  using assms
  by (simp add: main_def read_text_def returns_def bind_io_def generate_structure_def
      call_ai_answer lift_def loads_def build_request_def structure_system_def page_system_def
      page_calls_def)

theorem main_unparseable_structure_witness:
  "json_loads (stub_env [''Sorry, I cannot help.'']) ''Sorry, I cannot help.'' = None \<and>
   main (stub_env [''Sorry, I cannot help.'']) empty_world =
     (Inl JSONDecodeError,
      \<lparr>requests =
         [build_request (stub_env [''Sorry, I cannot help.'']) structure_system
            (structure_user ''A fintech landing site'')],
       writes = []\<rparr>) \<and>
   page_calls (snd (main (stub_env [''Sorry, I cannot help.'']) empty_world)) = []"
  using main_unparseable_structure
    [of "stub_env [''Sorry, I cannot help.'']" "''A fintech landing site''" empty_world
       "''Sorry, I cannot help.''"]
  by (simp add: stub_env_def not_set_def empty_world_def answer_def scripted_def
      read_response_Response subscripts_def bind_err_def completion_def stub_loads_def
      build_request_def page_calls_def structure_system_def page_system_def)

text \<open>After its shared phase, a run is at the page loop, in the world of the shared phase.\<close>

lemma main_shared:
  assumes "shared_phase env prompt structure_text structure header footer css"
  shows "main env empty_world =
           bind_io (lift (py_getitem structure ''pages'')) (\<lambda>pages.
           bind_io (lift (py_iter pages)) (\<lambda>items.
             page_loop env prompt (JStr header) (JStr footer) items))
           (shared_world env prompt header footer css)"
proof -
  define R1 where "R1 = build_request env structure_system (structure_user prompt)"
  define R2 where "R2 = build_request env header_system (header_user prompt)"
  define R3 where "R3 = build_request env footer_system (footer_user prompt)"
  define R4 where "R4 = build_request env css_system (css_user prompt)"
  have sr: "shared_requests env prompt = [R1, R2, R3, R4]"
    by (simp add: shared_requests_def R1_def R2_def R3_def R4_def)
  from assms have key: "\<not> not_set (api_key env)" and p: "prompt_txt env = Some prompt"
    and a1: "answer env [R1] = Inr (JStr structure_text)"
    and l: "json_loads env structure_text = Some structure"
    and a2: "answer env [R1, R2] = Inr (JStr header)"
    and a3: "answer env [R1, R2, R3] = Inr (JStr footer)"
    and a4: "answer env [R1, R2, R3, R4] = Inr (JStr css)"
    and wr: "writable env ''header.html''" "writable env ''footer.html''" "writable env ''main.css''"
    by (simp_all add: shared_phase_def sr)
  have s1: "generate_structure env prompt \<lparr>requests = [], writes = []\<rparr> =
      (Inr structure, \<lparr>requests = [R1], writes = []\<rparr>)"
    using a1 l
    by (simp add: generate_structure_def bind_io_def call_ai_answer lift_def loads_def R1_def)
  have s2: "generate_header env prompt \<lparr>requests = [R1], writes = []\<rparr> =
      (Inr (JStr header), \<lparr>requests = [R1, R2], writes = []\<rparr>)"
    using a2 by (simp add: generate_header_def call_ai_answer R2_def)
  have s3: "generate_footer env prompt \<lparr>requests = [R1, R2], writes = []\<rparr> =
      (Inr (JStr footer), \<lparr>requests = [R1, R2, R3], writes = []\<rparr>)"
    using a3 by (simp add: generate_footer_def call_ai_answer R3_def)
  have s4: "generate_css env prompt
       \<lparr>requests = [R1, R2, R3],
        writes = [(''header.html'', header), (''footer.html'', footer)]\<rparr> =
      (Inr (JStr css),
       \<lparr>requests = [R1, R2, R3, R4],
        writes = [(''header.html'', header), (''footer.html'', footer)]\<rparr>)"
    using a4 by (simp add: generate_css_def call_ai_answer R4_def)
  show ?thesis
    using key p wr
    by (simp add: main_def read_text_def returns_def bind_io_def empty_world_def
        s1 s2 s3 s4 write_text_ok shared_world_def sr)
qed

lemma stub_shared_phase:
  "stub_loads structure_text = Some structure \<Longrightarrow>
   shared_phase (stub_env (structure_text # header # footer # css # replies))
     ''A fintech landing site'' structure_text structure header footer css"
  by (simp add: shared_phase_def stub_env_def not_set_def shared_requests_def answer_def
      scripted_def read_response_Response subscripts_def bind_err_def completion_def)

text \<open>
  C3, as amended. \<open>generate_structure\<close> returns whatever the response decodes to
  and does not look for a \<open>pages\<close> field. When the structure is an object without
  \<open>pages\<close> and the shared phase goes through, the run makes the header, footer and
  stylesheet calls, writes the three shared files, and only then fails, with the
  \<open>KeyError\<close> of \<open>structure["pages"]\<close> at the head of the page loop, before any
  page-generation call.
\<close>

theorem main_structure_without_pages:
  assumes "shared_phase env prompt structure_text (JObj kvs) header footer css"
    and "map_of kvs ''pages'' = None"
  shows "generate_structure env prompt empty_world =
           (Inr (JObj kvs), \<lparr>requests = take 1 (shared_requests env prompt), writes = []\<rparr>) \<and>
         main env empty_world =
           (Inl KeyError,
            \<lparr>requests = shared_requests env prompt,
             writes = [(''header.html'', header), (''footer.html'', footer), (''main.css'', css)]\<rparr>)"
proof
  from assms(1) show "generate_structure env prompt empty_world =
           (Inr (JObj kvs), \<lparr>requests = take 1 (shared_requests env prompt), writes = []\<rparr>)"
    by (simp add: shared_phase_def shared_requests_def generate_structure_def bind_io_def
        call_ai_answer lift_def loads_def empty_world_def)
next
  from assms(2) show "main env empty_world =
           (Inl KeyError,
            \<lparr>requests = shared_requests env prompt,
             writes = [(''header.html'', header), (''footer.html'', footer), (''main.css'', css)]\<rparr>)"
    by (simp add: main_shared [OF assms(1)] bind_io_def lift_def shared_world_def)
qed

theorem main_structure_without_pages_witness:
  "fst (generate_structure (stub_env [''{}'', ''<nav>N</nav>'', ''<small>S</small>'', ''a {}''])
          ''A fintech landing site'' empty_world) = Inr (JObj []) \<and>
   main (stub_env [''{}'', ''<nav>N</nav>'', ''<small>S</small>'', ''a {}'']) empty_world =
     (Inl KeyError,
      \<lparr>requests =
         shared_requests (stub_env [''{}'', ''<nav>N</nav>'', ''<small>S</small>'', ''a {}''])
           ''A fintech landing site'',
       writes = [(''header.html'', ''<nav>N</nav>''), (''footer.html'', ''<small>S</small>''),
                 (''main.css'', ''a {}'')]\<rparr>)"
proof -
  have l: "stub_loads ''{}'' = Some (JObj [])"
    by (simp add: stub_loads_def)
  show ?thesis
    using main_structure_without_pages [OF stub_shared_phase [OF l]] by simp
qed

text \<open>
  C3, as stated, fails. For the structure response \<open>{}\<close>, which decodes but has no
  \<open>pages\<close>, \<open>generate_structure\<close> returns the empty object and raises nothing; the
  run goes on to the header, footer and stylesheet calls and writes the three shared
  files before it ends with a \<open>KeyError\<close>.
\<close>

theorem structure_without_pages_goes_on:
  "fst (generate_structure (stub_env [''{}'', ''<h1>H</h1>'', ''<p>F</p>'', ''body {}''])
          ''A fintech landing site'' empty_world) = Inr (JObj []) \<and>
   fst (main (stub_env [''{}'', ''<h1>H</h1>'', ''<p>F</p>'', ''body {}'']) empty_world)
     = Inl KeyError \<and>
   map system_content
     (requests (snd (main (stub_env [''{}'', ''<h1>H</h1>'', ''<p>F</p>'', ''body {}''])
        empty_world))) =
     [structure_system, header_system, footer_system, css_system] \<and>
   writes (snd (main (stub_env [''{}'', ''<h1>H</h1>'', ''<p>F</p>'', ''body {}'']) empty_world)) =
     [(''header.html'', ''<h1>H</h1>''), (''footer.html'', ''<p>F</p>''), (''main.css'', ''body {}'')]"
proof -
  have l: "stub_loads ''{}'' = Some (JObj [])"
    by (simp add: stub_loads_def)
  have p: "shared_phase (stub_env [''{}'', ''<h1>H</h1>'', ''<p>F</p>'', ''body {}''])
     ''A fintech landing site'' ''{}'' (JObj []) ''<h1>H</h1>'' ''<p>F</p>'' ''body {}''"
    by (rule stub_shared_phase [OF l])
  have g: "fst (generate_structure (stub_env [''{}'', ''<h1>H</h1>'', ''<p>F</p>'', ''body {}''])
          ''A fintech landing site'' empty_world) = Inr (JObj [])"
    using p
    by (simp add: shared_phase_def shared_requests_def generate_structure_def bind_io_def
        call_ai_answer lift_def loads_def empty_world_def)
  show ?thesis
    by (simp add: g main_shared [OF p] bind_io_def lift_def shared_world_def
        shared_requests_def build_request_def)
qed

text \<open>
  C9. When the shared phase goes through and the structure's \<open>pages\<close> is the empty
  list, the run ends normally; it has made the four shared calls and no page call,
  and it has written exactly three files: \<open>header.html\<close>, \<open>footer.html\<close> and
  \<open>main.css\<close>.
\<close>

theorem main_empty_page_list:
  assumes "shared_phase env prompt structure_text structure header footer css"
    and "py_getitem structure ''pages'' = Inr (JArr [])"
  shows "main env empty_world =
           (Inr (),
            \<lparr>requests = shared_requests env prompt,
             writes = [(''header.html'', header), (''footer.html'', footer), (''main.css'', css)]\<rparr>)"
  using assms(2)
  by (simp add: main_shared [OF assms(1)] bind_io_def lift_def shared_world_def)

theorem main_empty_page_list_witness:
  \<open>main (stub_env [''{"pages": []}'', ''<h1>H</h1>'', ''<p>F</p>'', ''body {}'']) empty_world =
     (Inr (),
      \<lparr>requests =
         shared_requests (stub_env [''{"pages": []}'', ''<h1>H</h1>'', ''<p>F</p>'', ''body {}''])
           ''A fintech landing site'',
       writes = [(''header.html'', ''<h1>H</h1>''), (''footer.html'', ''<p>F</p>''),
                 (''main.css'', ''body {}'')]\<rparr>)\<close>
proof -
  have l: \<open>stub_loads ''{"pages": []}'' = Some (JObj [(''pages'', JArr [])])\<close>
    by (simp add: stub_loads_def)
  show ?thesis
    using main_empty_page_list [OF stub_shared_phase [OF l]] by simp
qed

text \<open>
  The page loop, when every page call returns a str and every page file can be
  written: one request and one write for each item of the list, in the order of the list.
\<close>

lemma page_loop_ok:
  assumes "length bodies = length pages"
    and "\<forall>i<length pages.
           answer env (requests w @ map (page_request env prompt) (take (Suc i) pages))
             = Inr (JStr (bodies ! i))"
    and "\<forall>p\<in>set pages. writable env p"
  shows "page_loop env prompt (JStr header) (JStr footer) (map JStr pages) w =
           (Inr (),
            w\<lparr>requests := requests w @ map (page_request env prompt) pages,
              writes := writes w @ map2 (\<lambda>p b. (p, assemble_page b header footer)) pages bodies\<rparr>)"
  using assms
proof (induction pages arbitrary: w bodies)
  case Nil
  then show ?case by simp
next
  case (Cons p ps)
  then obtain b bs where bodies: "bodies = b # bs" and len: "length bs = length ps"
    by (cases bodies) auto
  let ?w1 = "w\<lparr>requests := requests w @ [page_request env prompt p]\<rparr>"
  let ?w2 = "?w1\<lparr>writes := writes w @ [(p, assemble_page b header footer)]\<rparr>"
  from Cons.prems(2) [rule_format, of 0]
  have a0: "answer env (requests w @ [page_request env prompt p]) = Inr (JStr b)"
    by (simp add: bodies)
  have gen: "generate_page env (JStr p) prompt w = (Inr (JStr b), ?w1)"
    using a0 by (simp add: generate_page_def call_ai_answer page_request_def)
  have wr: "write_text env p (JStr (assemble_page b header footer)) ?w1 = (Inr (), ?w2)"
    using Cons.prems(3) by (simp add: write_text_def)
  have rest: "\<forall>i<length ps.
           answer env (requests ?w2 @ map (page_request env prompt) (take (Suc i) ps))
             = Inr (JStr (bs ! i))"
  proof (intro allI impI)
    fix i assume "i < length ps"
    with Cons.prems(2) [rule_format, of "Suc i"] show
      "answer env (requests ?w2 @ map (page_request env prompt) (take (Suc i) ps)) = Inr (JStr (bs ! i))"
      by (simp add: bodies)
  qed
  have "page_loop env prompt (JStr header) (JStr footer) (map JStr ps) ?w2 =
           (Inr (),
            ?w2\<lparr>requests := requests ?w2 @ map (page_request env prompt) ps,
              writes := writes ?w2 @ map2 (\<lambda>p b. (p, assemble_page b header footer)) ps bs\<rparr>)"
    using Cons.prems(3) by (intro Cons.IH [OF len rest]) simp
  then show ?case
    by (simp add: gen wr path_join_def bodies Let_def del: page_loop.simps(2))
       (simp add: gen wr path_join_def)
qed

text \<open>A file holds the text of the last write that reached it.\<close>

lemma fold_write_other:
  "k \<notin> file_of env ` fst ` set ws \<Longrightarrow>
   fold (\<lambda>nc d. d(file_of env (fst nc) \<mapsto> snd nc)) ws d k = d k"
  by (induction ws arbitrary: d) auto

lemma disk_last_write:
  "file_of env n \<notin> file_of env ` fst ` set later \<Longrightarrow>
   disk env (earlier @ (n, c) # later) (file_of env n) = Some c"
  by (simp add: disk_def fold_write_other)

text \<open>
  A run that gets through its shared phase and all of its pages: the four shared
  requests and one request for each item, the three shared files and one file
  write for each item.
\<close>

lemma main_pages_run:
  assumes "shared_phase env prompt structure_text structure header footer css"
    and "py_getitem structure ''pages'' = Inr (JArr (map JStr pages))"
    and "length bodies = length pages"
    and "\<forall>i<length pages.
           answer env (shared_requests env prompt
                        @ map (page_request env prompt) (take (Suc i) pages))
             = Inr (JStr (bodies ! i))"
    and "\<forall>p\<in>set pages. writable env p"
  shows "main env empty_world =
           (Inr (),
            \<lparr>requests = shared_requests env prompt @ map (page_request env prompt) pages,
             writes = [(''header.html'', header), (''footer.html'', footer), (''main.css'', css)]
                      @ map2 (\<lambda>p b. (p, assemble_page b header footer)) pages bodies\<rparr>)"
proof -
  have loop: "page_loop env prompt (JStr header) (JStr footer) (map JStr pages)
                (shared_world env prompt header footer css) =
           (Inr (),
            \<lparr>requests = shared_requests env prompt @ map (page_request env prompt) pages,
             writes = [(''header.html'', header), (''footer.html'', footer), (''main.css'', css)]
                      @ map2 (\<lambda>p b. (p, assemble_page b header footer)) pages bodies\<rparr>)"
    using page_loop_ok [of bodies pages env "shared_world env prompt header footer css" prompt header footer]
      assms(3-5)
    by (simp add: shared_world_def)
  show ?thesis
    using assms(2) loop by (simp add: main_shared [OF assms(1)] bind_io_def lift_def)
qed

text \<open>
  C10, as amended. Let the shared phase go through, let the structure's \<open>pages\<close> be
  a list of strs, let the page calls return the strs \<open>bodies\<close>, one for each item,
  and let every page file be writable. Then the run ends normally, having made one
  page call and one write for every item of \<open>pages\<close>, in order, also where an
  identifier is repeated. For an occurrence of \<open>page\<close> after which no item reaches
  the same file, the file holds at the end the document assembled from the body that
  was returned for this occurrence. This is the last occurrence of the identifier
  when no later item names the same file in another spelling.
\<close>

theorem main_duplicate_pages:
  assumes "shared_phase env prompt structure_text structure header footer css"
    and "py_getitem structure ''pages'' = Inr (JArr (map JStr pages))"
    and "length bodies = length pages"
    and "\<forall>i<length pages.
           answer env (shared_requests env prompt
                        @ map (page_request env prompt) (take (Suc i) pages))
             = Inr (JStr (bodies ! i))"
    and "\<forall>p\<in>set pages. writable env p"
    and "pages = earlier @ page # later"
    and "file_of env page \<notin> file_of env ` set later"
  shows "main env empty_world =
           (Inr (),
            \<lparr>requests = shared_requests env prompt @ map (page_request env prompt) pages,
             writes = [(''header.html'', header), (''footer.html'', footer), (''main.css'', css)]
                      @ map2 (\<lambda>p b. (p, assemble_page b header footer)) pages bodies\<rparr>) \<and>
         disk env (writes (snd (main env empty_world))) (file_of env page) =
           Some (assemble_page (bodies ! length earlier) header footer)"
proof -
  let ?doc = "\<lambda>p b. (p, assemble_page b header footer)"
  have run: "main env empty_world =
           (Inr (),
            \<lparr>requests = shared_requests env prompt @ map (page_request env prompt) pages,
             writes = [(''header.html'', header), (''footer.html'', footer), (''main.css'', css)]
                      @ map2 ?doc pages bodies\<rparr>)"
    by (rule main_pages_run [OF assms(1-5)])
  have n: "length earlier < length bodies"
    using assms(3,6) by simp
  have split: "map2 ?doc pages bodies =
      map2 ?doc earlier (take (length earlier) bodies)
      @ (page, assemble_page (bodies ! length earlier) header footer)
      # map2 ?doc later (drop (Suc (length earlier)) bodies)"
  proof -
    have "zip pages bodies =
        zip earlier (take (length earlier) bodies) @ zip (page # later) (drop (length earlier) bodies)"
      unfolding assms(6) by (rule zip_append1)
    moreover have "drop (length earlier) bodies =
        bodies ! length earlier # drop (Suc (length earlier)) bodies"
      using n by (simp add: Cons_nth_drop_Suc)
    ultimately show ?thesis by simp
  qed
  have later: "file_of env page \<notin> file_of env ` fst ` set (map2 ?doc later (drop (Suc (length earlier)) bodies))"
  proof
    assume "file_of env page \<in> file_of env ` fst ` set (map2 ?doc later (drop (Suc (length earlier)) bodies))"
    then obtain q b where "(q, b) \<in> set (zip later (drop (Suc (length earlier)) bodies))"
      and "file_of env page = file_of env q"
      by auto
    then have "q \<in> set later" and "file_of env page = file_of env q"
      by (auto dest: set_zip_leftD)
    with assms(7) show False by auto
  qed
  have "disk env
          (([(''header.html'', header), (''footer.html'', footer), (''main.css'', css)]
            @ map2 ?doc earlier (take (length earlier) bodies))
           @ (page, assemble_page (bodies ! length earlier) header footer)
           # map2 ?doc later (drop (Suc (length earlier)) bodies))
          (file_of env page) =
        Some (assemble_page (bodies ! length earlier) header footer)"
    using later by (rule disk_last_write)
  then show ?thesis
    by (simp add: run split)
qed

theorem main_duplicate_pages_witness:
  \<open>main (stub_env [''{"pages": ["index.html", "index.html"]}'', ''<h1>H</h1>'', ''<p>F</p>'',
            ''body {}'', ''<h1>One</h1>'', ''<h1>Two</h1>'']) empty_world =
     (Inr (),
      \<lparr>requests =
         shared_requests
           (stub_env [''{"pages": ["index.html", "index.html"]}'', ''<h1>H</h1>'', ''<p>F</p>'',
              ''body {}'', ''<h1>One</h1>'', ''<h1>Two</h1>'']) ''A fintech landing site''
         @ [page_request
              (stub_env [''{"pages": ["index.html", "index.html"]}'', ''<h1>H</h1>'', ''<p>F</p>'',
                 ''body {}'', ''<h1>One</h1>'', ''<h1>Two</h1>'']) ''A fintech landing site''
              ''index.html'',
            page_request
              (stub_env [''{"pages": ["index.html", "index.html"]}'', ''<h1>H</h1>'', ''<p>F</p>'',
                 ''body {}'', ''<h1>One</h1>'', ''<h1>Two</h1>'']) ''A fintech landing site''
              ''index.html''],
       writes =
         [(''header.html'', ''<h1>H</h1>''), (''footer.html'', ''<p>F</p>''),
          (''main.css'', ''body {}''),
          (''index.html'', assemble_page ''<h1>One</h1>'' ''<h1>H</h1>'' ''<p>F</p>''),
          (''index.html'', assemble_page ''<h1>Two</h1>'' ''<h1>H</h1>'' ''<p>F</p>'')]\<rparr>) \<and>
   disk (stub_env [''{"pages": ["index.html", "index.html"]}'', ''<h1>H</h1>'', ''<p>F</p>'',
            ''body {}'', ''<h1>One</h1>'', ''<h1>Two</h1>''])
     (writes (snd (main (stub_env [''{"pages": ["index.html", "index.html"]}'', ''<h1>H</h1>'',
            ''<p>F</p>'', ''body {}'', ''<h1>One</h1>'', ''<h1>Two</h1>'']) empty_world)))
     ''output/index.html'' =
   Some (assemble_page ''<h1>Two</h1>'' ''<h1>H</h1>'' ''<p>F</p>'')\<close>
proof -
  let ?env = \<open>stub_env [''{"pages": ["index.html", "index.html"]}'', ''<h1>H</h1>'', ''<p>F</p>'',
            ''body {}'', ''<h1>One</h1>'', ''<h1>Two</h1>'']\<close>
  have l: \<open>stub_loads ''{"pages": ["index.html", "index.html"]}'' =
      Some (JObj [(''pages'', JArr [JStr ''index.html'', JStr ''index.html''])])\<close>
    by (simp add: stub_loads_def)
  have pages: "py_getitem (JObj [(''pages'', JArr [JStr ''index.html'', JStr ''index.html''])]) ''pages''
      = Inr (JArr (map JStr [''index.html'', ''index.html'']))"
    by simp
  have len: "length [''<h1>One</h1>'', ''<h1>Two</h1>''] = length [''index.html'', ''index.html'']"
    by simp
  have bodies: "\<forall>i<length [''index.html'', ''index.html''].
      answer ?env (shared_requests ?env ''A fintech landing site''
                   @ map (page_request ?env ''A fintech landing site'')
                       (take (Suc i) [''index.html'', ''index.html'']))
        = Inr (JStr ([''<h1>One</h1>'', ''<h1>Two</h1>''] ! i))"
    by (simp add: less_Suc_eq shared_requests_def stub_env_def answer_def scripted_def
        read_response_Response subscripts_def bind_err_def completion_def)
  have wr: "\<forall>p\<in>set [''index.html'', ''index.html'']. writable ?env p"
    by (simp add: stub_env_def)
  have split: "[''index.html'', ''index.html''] = [''index.html''] @ ''index.html'' # []"
    by simp
  have last: "file_of ?env ''index.html'' \<notin> file_of ?env ` set []"
    by simp
  have f: "file_of ?env ''index.html'' = ''output/index.html''"
    by (simp add: stub_env_def)
  show ?thesis
    using main_duplicate_pages [OF stub_shared_phase [OF l] pages len bodies wr split last]
    by (elim conjE) (simp add: f)
qed

text \<open>
  C10, as stated, fails. The page list names \<open>index.html\<close> twice and then
  \<open>./index.html\<close>, which is the same file. The run makes three page calls and
  three writes, and the file ends with the document of the third item, not with the
  document built for the last occurrence of the identifier \<open>index.html\<close>.
\<close>

theorem repeated_page_overwritten_by_alias:
  "fst (main alias_env empty_world) = Inr () \<and>
   map fst (drop 3 (writes (snd (main alias_env empty_world)))) =
     [''index.html'', ''index.html'', ''./index.html''] \<and>
   file_of alias_env ''index.html'' = ''output/index.html'' \<and>
   disk alias_env (writes (snd (main alias_env empty_world))) (file_of alias_env ''index.html'') =
     Some (assemble_page ''<h1>Three</h1>'' ''<h1>H</h1>'' ''<p>F</p>'') \<and>
   assemble_page ''<h1>Three</h1>'' ''<h1>H</h1>'' ''<p>F</p>''
     \<noteq> assemble_page ''<h1>Two</h1>'' ''<h1>H</h1>'' ''<p>F</p>''"
proof -
  let ?pages = "[''index.html'', ''index.html'', ''./index.html'']"
  let ?bodies = "[''<h1>One</h1>'', ''<h1>Two</h1>'', ''<h1>Three</h1>'']"
  have phase: \<open>shared_phase alias_env ''A fintech landing site''
      ''{"pages": ["index.html", "index.html", "./index.html"]}''
      (JObj [(''pages'', JArr (map JStr ?pages))]) ''<h1>H</h1>'' ''<p>F</p>'' ''body {}''\<close>
    by (simp add: shared_phase_def alias_env_def alias_loads_def stub_env_def not_set_def
        shared_requests_def answer_def scripted_def read_response_Response subscripts_def
        bind_err_def completion_def)
  have pages: "py_getitem (JObj [(''pages'', JArr (map JStr ?pages))]) ''pages''
      = Inr (JArr (map JStr ?pages))"
    by simp
  have len: "length ?bodies = length ?pages"
    by simp
  have bodies: "\<forall>i<length ?pages.
      answer alias_env (shared_requests alias_env ''A fintech landing site''
                   @ map (page_request alias_env ''A fintech landing site'') (take (Suc i) ?pages))
        = Inr (JStr (?bodies ! i))"
    by (simp add: less_Suc_eq shared_requests_def alias_env_def stub_env_def answer_def
        scripted_def read_response_Response subscripts_def bind_err_def completion_def)
  have wr: "\<forall>p\<in>set ?pages. writable alias_env p"
    by (simp add: alias_env_def stub_env_def)
  have f: "file_of alias_env = (\<lambda>name. ''output/'' @ (if take 2 name = ''./'' then drop 2 name else name))"
    by (simp add: alias_env_def stub_env_def)
  have run: "main alias_env empty_world =
      (Inr (),
       \<lparr>requests = shared_requests alias_env ''A fintech landing site''
           @ map (page_request alias_env ''A fintech landing site'') ?pages,
        writes = [(''header.html'', ''<h1>H</h1>''), (''footer.html'', ''<p>F</p>''),
                  (''main.css'', ''body {}'')]
                 @ map2 (\<lambda>p b. (p, assemble_page b ''<h1>H</h1>'' ''<p>F</p>'')) ?pages ?bodies\<rparr>)"
    by (rule main_pages_run [OF phase pages len bodies wr])
  have differ: "assemble_page ''<h1>Three</h1>'' ''<h1>H</h1>'' ''<p>F</p>''
     \<noteq> assemble_page ''<h1>Two</h1>'' ''<h1>H</h1>'' ''<p>F</p>''"
    by (simp add: assemble_page_def)
  show ?thesis
    using differ by (simp add: run disk_def f)
qed

end
